theory Spec2Isabelle
  imports Complex_Main
begin

section \<open>JavaScript values as the two API handlers see them\<close>

text \<open>
  The handlers of \<^verbatim>\<open>src/pages/api/transfers/index.js\<close> and
  \<^verbatim>\<open>src/pages/api/alerts/index.js\<close> read the fields of a JSON request body (or of the
  query string) without checking their types, so a field is any of the values below.
  \<open>JUndefined\<close> is a field that is absent. A JSON number is \<open>JNum r\<close>, with \<open>r\<close> the
  value of the finite double that \<open>JSON.parse\<close> returns for it; fields that are arrays or
  objects are not modelled. Strings are lists of 8-bit characters, read as the code units
  U+0000 to U+00FF.

  Numbers that the handlers compute are integers or \<open>NaN\<close>: the type \<open>jsnum\<close>. Integer
  arithmetic on doubles is exact up to \<open>2^53\<close>; the model has no upper limit.
\<close>

datatype jsval = JUndefined | JNull | JBool bool | JNum rat | JStr string

datatype jsnum = NaN | Num int

text \<open>\<open>!v\<close>: the values that convert to \<open>false\<close>.\<close>

fun falsy :: "jsval \<Rightarrow> bool" where
  "falsy JUndefined = True"
| "falsy JNull = True"
| "falsy (JBool b) = (b = False)"
| "falsy (JNum r) = (r = 0)"
| "falsy (JStr s) = (s = [])"

text \<open>\<open>a || b\<close> on values.\<close>

definition js_or :: "jsval \<Rightarrow> jsval \<Rightarrow> jsval" where
  "js_or a b = (if falsy a then b else a)"

text \<open>
  \<open>a === b\<close> on request values: the same type and the same value. No request value is
  \<open>NaN\<close>, so strict equality is equality of the representations; a number is never
  strictly equal to a string.
\<close>

definition strict_eq :: "jsval \<Rightarrow> jsval \<Rightarrow> bool" where
  "strict_eq a b = (a = b)"

text \<open>\<open>a === b\<close>, \<open>a < b\<close>, \<open>a + b\<close>, \<open>a - b\<close> and \<open>a || 0\<close> on computed numbers:
  every comparison with \<open>NaN\<close> is false and \<open>NaN\<close> propagates through arithmetic.\<close>

fun num_eq :: "jsnum \<Rightarrow> jsnum \<Rightarrow> bool" where
  "num_eq (Num a) (Num b) = (a = b)"
| "num_eq _ _ = False"

fun num_lt :: "jsnum \<Rightarrow> jsnum \<Rightarrow> bool" where
  "num_lt (Num a) (Num b) = (a < b)"
| "num_lt _ _ = False"

fun num_add :: "jsnum \<Rightarrow> jsnum \<Rightarrow> jsnum" where
  "num_add (Num a) (Num b) = Num (a + b)"
| "num_add _ _ = NaN"

fun num_sub :: "jsnum \<Rightarrow> jsnum \<Rightarrow> jsnum" where
  "num_sub (Num a) (Num b) = Num (a - b)"
| "num_sub _ _ = NaN"

fun num_or_zero :: "jsnum \<Rightarrow> jsnum" where
  "num_or_zero (Num a) = Num a"
| "num_or_zero NaN = Num 0"

subsection \<open>Digits and white space\<close>

definition StrWhiteSpaceChar :: "char \<Rightarrow> bool" where
  "StrWhiteSpaceChar c =
     (c \<in> set [CHR 0x09, CHR 0x0A, CHR 0x0B, CHR 0x0C, CHR 0x0D, CHR 0x20, CHR 0xA0])"

definition digit_value :: "nat \<Rightarrow> char \<Rightarrow> nat option" where
  "digit_value radix c =
     (let n = (of_char c :: nat);
          v = (if 48 \<le> n \<and> n \<le> 57 then Some (n - 48)
               else if 97 \<le> n \<and> n \<le> 122 then Some (n - 87)
               else if 65 \<le> n \<and> n \<le> 90 then Some (n - 55)
               else None)
      in case v of None \<Rightarrow> None | Some d \<Rightarrow> if d < radix then Some d else None)"

definition is_digit :: "nat \<Rightarrow> char \<Rightarrow> bool" where
  "is_digit radix c = (digit_value radix c \<noteq> None)"

definition digits_value :: "nat \<Rightarrow> string \<Rightarrow> nat" where
  "digits_value radix ds =
     foldl (\<lambda>acc c. acc * radix + (case digit_value radix c of None \<Rightarrow> 0 | Some d \<Rightarrow> d)) 0 ds"

subsection \<open>\<open>parseInt(v)\<close> with no radix\<close>

text \<open>
  On a string: leading white space is dropped, then an optional sign, then \<open>0x\<close> or
  \<open>0X\<close> selects radix 16; the longest run of digits is read and whatever follows is
  ignored. No digit at all gives \<open>NaN\<close>.
\<close>

definition parseInt_string :: "string \<Rightarrow> jsnum" where
  "parseInt_string inputString =
     (let S = dropWhile StrWhiteSpaceChar inputString;
          sign = (if take 1 S = ''-'' then - 1 else 1 :: int);
          S1 = (if take 1 S = ''+'' \<or> take 1 S = ''-'' then drop 1 S else S);
          hex = (take 2 S1 = ''0x'' \<or> take 2 S1 = ''0X'');
          R = (if hex then 16 else 10);
          S2 = (if hex then drop 2 S1 else S1);
          Z = takeWhile (is_digit R) S2
      in if Z = [] then NaN else Num (sign * int (digits_value R Z)))"

text \<open>
  On another value \<open>parseInt\<close> first converts to a string: \<open>"undefined"\<close>, \<open>"null"\<close>,
  \<open>"true"\<close> and \<open>"false"\<close> hold no digit. A number prints in plain decimal notation when
  it is \<open>0\<close> or \<open>10^-6 \<le> |r| < 10^21\<close>, and reading its integer digits back truncates it
  towards zero; the model is meant for numbers in that range.
\<close>

fun parseInt :: "jsval \<Rightarrow> jsnum" where
  "parseInt JUndefined = NaN"
| "parseInt JNull = NaN"
| "parseInt (JBool b) = NaN"
| "parseInt (JNum r) = Num (if 0 \<le> r then \<lfloor>r\<rfloor> else \<lceil>r\<rceil>)"
| "parseInt (JStr s) = parseInt_string s"

subsection \<open>\<open>v <= 0\<close>: conversion to a number\<close>

text \<open>
  \<open>quantity <= 0\<close> converts the value to a number. A string must be, as a whole and
  between white space, a numeric literal: empty (the number \<open>0\<close>), a signed decimal
  literal with optional fraction and exponent, a signed \<open>Infinity\<close>, or an unsigned
  literal with prefix \<open>0x\<close>, \<open>0o\<close> or \<open>0b\<close>; anything else is \<open>NaN\<close>.
  \<open>Finite r\<close> carries the exact value of the literal, except that a value which a
  double rounds to zero or to infinity is given as such: this is all that a comparison
  with \<open>0\<close> can see of the rounding.
\<close>

datatype number = NotANumber | PosInfinity | NegInfinity | Finite rat

definition ExponentPart :: "string \<Rightarrow> int option" where
  "ExponentPart s =
     (if s = [] then Some 0
      else if take 1 s = ''e'' \<or> take 1 s = ''E'' then
        (let t = drop 1 s;
             neg = (take 1 t = ''-'');
             ds = (if take 1 t = ''+'' \<or> take 1 t = ''-'' then drop 1 t else t)
         in if ds \<noteq> [] \<and> list_all (is_digit 10) ds
            then Some ((if neg then - 1 else 1) * int (digits_value 10 ds))
            else None)
      else None)"

definition StrUnsignedDecimalLiteral :: "string \<Rightarrow> rat option" where
  "StrUnsignedDecimalLiteral s =
     (let ip = takeWhile (is_digit 10) s;
          r1 = dropWhile (is_digit 10) s;
          dot = (take 1 r1 = ''.'');
          fp = (if dot then takeWhile (is_digit 10) (drop 1 r1) else []);
          r2 = (if dot then dropWhile (is_digit 10) (drop 1 r1) else r1)
      in if ip = [] \<and> fp = [] then None
         else case ExponentPart r2 of
                None \<Rightarrow> None
              | Some e \<Rightarrow>
                  (let m = (of_nat (digits_value 10 (ip @ fp)) :: rat);
                       k = e - int (length fp)
                   in Some (if 0 \<le> k then m * 10 ^ nat k else m / 10 ^ nat (- k))))"

definition round_to_double :: "rat \<Rightarrow> number" where
  "round_to_double v =
     (if \<bar>v\<bar> \<le> 1 / 2 ^ 1075 then Finite 0
      else if 2 ^ 1024 - 2 ^ 970 \<le> v then PosInfinity
      else if v \<le> - (2 ^ 1024 - 2 ^ 970) then NegInfinity
      else Finite v)"

definition NonDecimalIntegerLiteral :: "nat \<Rightarrow> string \<Rightarrow> number" where
  "NonDecimalIntegerLiteral radix ds =
     (if ds \<noteq> [] \<and> list_all (is_digit radix) ds
      then round_to_double (of_nat (digits_value radix ds))
      else NotANumber)"

definition StringToNumber :: "string \<Rightarrow> number" where
  "StringToNumber str =
     (let t = rev (dropWhile StrWhiteSpaceChar (rev (dropWhile StrWhiteSpaceChar str)))
      in if t = [] then Finite 0
         else if take 2 t = ''0x'' \<or> take 2 t = ''0X'' then NonDecimalIntegerLiteral 16 (drop 2 t)
         else if take 2 t = ''0o'' \<or> take 2 t = ''0O'' then NonDecimalIntegerLiteral 8 (drop 2 t)
         else if take 2 t = ''0b'' \<or> take 2 t = ''0B'' then NonDecimalIntegerLiteral 2 (drop 2 t)
         else
           (let neg = (take 1 t = ''-'');
                u = (if take 1 t = ''+'' \<or> take 1 t = ''-'' then drop 1 t else t)
            in if u = ''Infinity'' then (if neg then NegInfinity else PosInfinity)
               else case StrUnsignedDecimalLiteral u of
                      None \<Rightarrow> NotANumber
                    | Some v \<Rightarrow> round_to_double (if neg then - v else v)))"

fun ToNumber :: "jsval \<Rightarrow> number" where
  "ToNumber JUndefined = NotANumber"
| "ToNumber JNull = Finite 0"
| "ToNumber (JBool b) = Finite (if b then 1 else 0)"
| "ToNumber (JNum r) = Finite r"
| "ToNumber (JStr s) = StringToNumber s"

definition le_zero :: "jsval \<Rightarrow> bool" where
  "le_zero v = (case ToNumber v of Finite r \<Rightarrow> r \<le> 0 | NegInfinity \<Rightarrow> True | _ \<Rightarrow> False)"

section \<open>The data files\<close>

text \<open>
  The collections of \<^verbatim>\<open>data/*.json\<close> as \<open>readJSONFile\<close> returns them. Identifiers,
  reorder points and stock quantities are integers in the files. A quantity that a handler
  has computed may be \<open>NaN\<close> (which \<open>JSON.stringify\<close> then writes as \<open>null\<close>), hence
  the type of \<open>s_quantity\<close> and \<open>t_quantity\<close>; in a collection read from a file every
  quantity is a number. The fields \<open>unitCost\<close> and
  \<open>estimatedCost\<close> are decimal fractions, take no part in any decision and are left out.
  Field names carry a prefix because several records share the names \<open>id\<close> and
  \<open>productId\<close>.
\<close>

record Product =
  p_id :: int
  p_sku :: string
  p_name :: string
  p_category :: string
  p_reorderPoint :: int

record Warehouse =
  w_id :: int
  w_name :: string
  w_location :: string

record StockEntry =
  s_id :: int
  s_productId :: int
  s_warehouseId :: int
  s_quantity :: jsnum

record Transfer =
  t_id :: int
  t_productId :: int
  t_fromWarehouseId :: int
  t_toWarehouseId :: int
  t_quantity :: jsnum
  t_notes :: jsval
  t_date :: string
  t_status :: string

record AlertRecord =
  a_productId :: jsnum
  a_acknowledged :: bool
  a_acknowledgedAt :: jsval
  a_acknowledgedBy :: jsval

record data =
  products :: "Product list"
  warehouses :: "Warehouse list"
  stock :: "StockEntry list"
  transfers :: "Transfer list"
  alerts :: "AlertRecord list"

text \<open>
  A response is \<open>res.status(code).json(payload)\<close>. An error payload is \<open>{error: text}\<close>;
  the text of the insufficient-stock error is a template over the warehouse name, the
  available quantity and the requested quantity as it was sent, which are kept as such.
\<close>

datatype error = Message string | Insufficient_stock string jsnum jsval

datatype 'a response = Failure nat error | Success nat 'a

fun status_code :: "'a response \<Rightarrow> nat" where
  "status_code (Failure c e) = c"
| "status_code (Success c x) = c"

text \<open>\<open>xs.findIndex(P)\<close>; \<open>None\<close> stands for \<open>-1\<close>. \<open>xs.find(P)\<close> is \<open>find P xs\<close>
  of the list library when only the value is used, and the element at \<open>findIndex\<close> when
  the object found is then assigned to.\<close>

fun findIndex :: "('a \<Rightarrow> bool) \<Rightarrow> 'a list \<Rightarrow> nat option" where
  "findIndex P [] = None"
| "findIndex P (x # xs) = (if P x then Some 0 else map_option Suc (findIndex P xs))"

text \<open>\<open>xs.length > 0 ? Math.max(...xs) + 1 : 1\<close>\<close>

definition next_id :: "int list \<Rightarrow> int" where
  "next_id ids = (if length ids > 0 then Max (set ids) + 1 else 1)"

section \<open>\<open>POST /api/transfers\<close>\<close>

text \<open>The \<open>GET\<close> branch of this handler, the list of transfers by date, takes no part in
  the properties below and is not modelled.\<close>

text \<open>The request body, a JSON object; \<open>notes'\<close> is its field \<open>notes\<close>.\<close>

record body =
  productId :: jsval
  fromWarehouseId :: jsval
  toWarehouseId :: jsval
  quantity :: jsval
  notes' :: jsval

record EnrichedTransfer = Transfer +
  productName :: string
  productSku :: string
  fromWarehouseName :: string
  toWarehouseName :: string

text \<open>\<open>stock.find(s => s.productId === parseInt(productId) && s.warehouseId ===
  parseInt(warehouseId))\<close>, as the index of the entry found.\<close>

definition find_stock :: "StockEntry list \<Rightarrow> jsnum \<Rightarrow> jsnum \<Rightarrow> nat option" where
  "find_stock st pid wid =
     findIndex (\<lambda>s. num_eq (Num (s_productId s)) pid \<and> num_eq (Num (s_warehouseId s)) wid) st"

text \<open>
  Lines 108 to 128: the source entry, at index \<open>i\<close>, is decremented in place; then the
  destination entry is looked up in the same array and incremented in place, or a new
  entry is pushed. \<open>pid\<close> and \<open>tid\<close> are \<open>parseInt(productId)\<close> and
  \<open>parseInt(toWarehouseId)\<close>; the integers \<open>p\<close> and \<open>t\<close> are the ids of the product
  and of the destination warehouse that were found under these keys.
\<close>

definition update_stock ::
  "StockEntry list \<Rightarrow> nat \<Rightarrow> jsnum \<Rightarrow> jsnum \<Rightarrow> int \<Rightarrow> int \<Rightarrow> jsnum \<Rightarrow> StockEntry list" where
  "update_stock st i pid tid p t n =
     (let sourceStock = st ! i;
          st1 = st[i := sourceStock\<lparr>s_quantity := num_sub (s_quantity sourceStock) n\<rparr>]
      in case find_stock st1 pid tid of
           Some j \<Rightarrow>
             (let destStock = st1 ! j
              in st1[j := destStock\<lparr>s_quantity := num_add (s_quantity destStock) n\<rparr>])
         | None \<Rightarrow>
             st1 @ [\<lparr>s_id = next_id (map s_id st1), s_productId = p, s_warehouseId = t,
                     s_quantity = n\<rparr>])"

text \<open>
  The handler's \<open>POST\<close> branch, lines 47 to 148. \<open>now\<close> is \<open>new Date().toISOString()\<close>.
  The result is the response and the data files as they then are: every early return
  leaves them as they were. Reading and writing the files is taken to succeed, so the
  \<open>catch\<close> branch (status 500) has no counterpart.

  The new transfer and a new stock entry hold \<open>parseInt(productId)\<close>,
  \<open>parseInt(fromWarehouseId)\<close> and \<open>parseInt(toWarehouseId)\<close>; at that point these are
  the ids of the product and the warehouses found (\<open>transfers_POST_cases\<close> below),
  which is how the model writes them.
\<close>

definition transfers_POST :: "data \<Rightarrow> string \<Rightarrow> body \<Rightarrow> EnrichedTransfer response \<times> data" where
  "transfers_POST d now b =
     (if falsy (productId b) \<or> falsy (fromWarehouseId b) \<or> falsy (toWarehouseId b)
         \<or> falsy (quantity b)
      then (Failure 400 (Message ''Missing required fields''), d)
      else if strict_eq (fromWarehouseId b) (toWarehouseId b)
      then (Failure 400 (Message ''Source and destination warehouses must be different''), d)
      else if le_zero (quantity b)
      then (Failure 400 (Message ''Quantity must be greater than 0''), d)
      else
        case find (\<lambda>p. num_eq (Num (p_id p)) (parseInt (productId b))) (products d) of
          None \<Rightarrow> (Failure 404 (Message ''Product not found''), d)
        | Some product \<Rightarrow>
           (case (find (\<lambda>w. num_eq (Num (w_id w)) (parseInt (fromWarehouseId b))) (warehouses d),
                  find (\<lambda>w. num_eq (Num (w_id w)) (parseInt (toWarehouseId b))) (warehouses d)) of
              (Some fromWarehouse, Some toWarehouse) \<Rightarrow>
                (case find_stock (stock d) (parseInt (productId b)) (parseInt (fromWarehouseId b)) of
                   None \<Rightarrow>
                     (Failure 400 (Insufficient_stock (w_name fromWarehouse) (Num 0) (quantity b)), d)
                 | Some i \<Rightarrow>
                     if num_lt (s_quantity (stock d ! i)) (parseInt (quantity b))
                     then (Failure 400 (Insufficient_stock (w_name fromWarehouse)
                                          (num_or_zero (s_quantity (stock d ! i))) (quantity b)), d)
                     else
                       (Success 201
                          \<lparr>t_id = next_id (map t_id (transfers d)),
                           t_productId = p_id product,
                           t_fromWarehouseId = w_id fromWarehouse,
                           t_toWarehouseId = w_id toWarehouse,
                           t_quantity = parseInt (quantity b),
                           t_notes = js_or (notes' b) (JStr []),
                           t_date = now,
                           t_status = ''completed'',
                           productName = p_name product,
                           productSku = p_sku product,
                           fromWarehouseName = w_name fromWarehouse,
                           toWarehouseName = w_name toWarehouse\<rparr>,
                        d\<lparr>transfers := transfers d @
                             [\<lparr>t_id = next_id (map t_id (transfers d)),
                               t_productId = p_id product,
                               t_fromWarehouseId = w_id fromWarehouse,
                               t_toWarehouseId = w_id toWarehouse,
                               t_quantity = parseInt (quantity b),
                               t_notes = js_or (notes' b) (JStr []),
                               t_date = now,
                               t_status = ''completed''\<rparr>],
                           stock := update_stock (stock d) i (parseInt (productId b))
                                      (parseInt (toWarehouseId b)) (p_id product)
                                      (w_id toWarehouse) (parseInt (quantity b))\<rparr>))
            | _ \<Rightarrow> (Failure 404 (Message ''Warehouse not found''), d)))"

section \<open>\<open>/api/alerts\<close>\<close>

datatype status = critical | low | overstocked | adequate

datatype severity = sev_critical | sev_high | sev_medium | sev_low

text \<open>\<open>severityOrder = { critical: 0, high: 1, medium: 2, low: 3 }\<close>\<close>

fun severityOrder :: "severity \<Rightarrow> nat" where
  "severityOrder sev_critical = 0"
| "severityOrder sev_high = 1"
| "severityOrder sev_medium = 2"
| "severityOrder sev_low = 3"

record WarehouseBreakdown =
  wb_warehouseId :: int
  wb_warehouseName :: string
  wb_warehouseLocation :: string
  wb_quantity :: jsnum

record Alert =
  al_productId :: int
  al_productName :: string
  al_productSku :: string
  al_category :: string
  al_currentStock :: jsnum
  al_reorderPoint :: int
  al_status :: status
  al_severity :: severity
  al_recommendedAction :: string
  al_reorderQuantity :: jsnum
  al_warehouseBreakdown :: "WarehouseBreakdown list"
  al_acknowledged :: bool
  al_acknowledgedAt :: jsval
  al_acknowledgedBy :: jsval

text \<open>Comparison of the total with a threshold, which may be a half: \<open>total < x\<close>,
  \<open>total > x\<close>, and \<open>Math.ceil(x - total)\<close>.\<close>

fun num_lt_rat :: "jsnum \<Rightarrow> rat \<Rightarrow> bool" where
  "num_lt_rat (Num a) x = (of_int a < x)"
| "num_lt_rat NaN x = False"

fun num_gt_rat :: "jsnum \<Rightarrow> rat \<Rightarrow> bool" where
  "num_gt_rat (Num a) x = (of_int a > x)"
| "num_gt_rat NaN x = False"

fun ceil_minus :: "rat \<Rightarrow> jsnum \<Rightarrow> jsnum" where
  "ceil_minus x (Num a) = Num \<lceil>x - of_int a\<rceil>"
| "ceil_minus x NaN = NaN"

text \<open>Lines 29 and 30: the stock of a product summed over the warehouses.\<close>

definition totalQuantity :: "StockEntry list \<Rightarrow> int \<Rightarrow> jsnum" where
  "totalQuantity st pid =
     foldl (\<lambda>sum s. num_add sum (s_quantity s)) (Num 0) (filter (\<lambda>s. s_productId s = pid) st)"

text \<open>Lines 33 to 62: status, severity, recommended action and reorder quantity.\<close>

definition classify :: "jsnum \<Rightarrow> int \<Rightarrow> status \<times> severity \<times> string \<times> jsnum" where
  "classify totalQ reorderPoint =
     (let criticalThreshold = of_int reorderPoint * (1 / 2);
          overstockThreshold = of_int reorderPoint * 3
      in if num_lt_rat totalQ criticalThreshold
         then (critical, sev_critical, ''URGENT: Immediate reorder required'',
               ceil_minus (of_int reorderPoint * 2) totalQ)
         else if num_lt_rat totalQ (of_int reorderPoint)
         then (low, sev_high, ''Reorder recommended'',
               ceil_minus (of_int reorderPoint * (3 / 2)) totalQ)
         else if num_gt_rat totalQ overstockThreshold
         then (overstocked, sev_medium, ''Consider redistribution or promotion'', Num 0)
         else (adequate, sev_low, ''Stock levels healthy'', Num 0))"

text \<open>\<open>warehouse?.name || 'Unknown'\<close>\<close>

definition or_unknown :: "string option \<Rightarrow> string" where
  "or_unknown s = (case s of None \<Rightarrow> ''Unknown'' | Some x \<Rightarrow> if x = [] then ''Unknown'' else x)"

text \<open>Lines 27 to 99: the alert of one product.\<close>

definition productAlert :: "data \<Rightarrow> Product \<Rightarrow> Alert" where
  "productAlert d product =
     (let productStock = filter (\<lambda>s. s_productId s = p_id product) (stock d);
          totalQ = totalQuantity (stock d) (p_id product);
          c = classify totalQ (p_reorderPoint product);
          warehouseBreakdown =
            map (\<lambda>s. let warehouse = find (\<lambda>w. w_id w = s_warehouseId s) (warehouses d)
                      in \<lparr>wb_warehouseId = s_warehouseId s,
                          wb_warehouseName = or_unknown (map_option w_name warehouse),
                          wb_warehouseLocation = or_unknown (map_option w_location warehouse),
                          wb_quantity = s_quantity s\<rparr>) productStock;
          alertRecord = find (\<lambda>a. num_eq (a_productId a) (Num (p_id product))) (alerts d)
      in \<lparr>al_productId = p_id product,
          al_productName = p_name product,
          al_productSku = p_sku product,
          al_category = p_category product,
          al_currentStock = totalQ,
          al_reorderPoint = p_reorderPoint product,
          al_status = fst c,
          al_severity = fst (snd c),
          al_recommendedAction = fst (snd (snd c)),
          al_reorderQuantity = snd (snd (snd c)),
          al_warehouseBreakdown = warehouseBreakdown,
          al_acknowledged = (case alertRecord of None \<Rightarrow> False | Some a \<Rightarrow> a_acknowledged a),
          al_acknowledgedAt =
            (case alertRecord of None \<Rightarrow> JNull | Some a \<Rightarrow> js_or (a_acknowledgedAt a) JNull),
          al_acknowledgedBy =
            (case alertRecord of None \<Rightarrow> JNull | Some a \<Rightarrow> js_or (a_acknowledgedBy a) JNull)\<rparr>)"

text \<open>
  The \<open>GET\<close> branch: one alert per product, then \<open>productAlerts.sort\<close> with the
  comparator \<open>severityOrder[a.severity] - severityOrder[b.severity]\<close>.
  \<open>Array.prototype.sort\<close> is stable (ECMAScript 2019, Node.js 11 and later; the README
  asks for Node.js 16), and so is \<open>sort_key\<close>.
\<close>

definition alerts_GET :: "data \<Rightarrow> Alert list" where
  "alerts_GET d = sort_key (\<lambda>a. severityOrder (al_severity a)) (map (productAlert d) (products d))"

text \<open>The \<open>POST\<close> branch, lines 110 to 143: acknowledge an alert. \<open>pid\<close> and
  \<open>acknowledgedBy\<close> are the fields \<open>productId\<close> and \<open>acknowledgedBy\<close> of the body,
  \<open>now\<close> is \<open>new Date().toISOString()\<close>.\<close>

definition alerts_POST ::
  "data \<Rightarrow> string \<Rightarrow> jsval \<Rightarrow> jsval \<Rightarrow> (string \<times> AlertRecord) response \<times> data" where
  "alerts_POST d now pid acknowledgedBy =
     (if falsy pid then (Failure 400 (Message ''Product ID is required''), d)
      else
        (let existingAlertIndex = findIndex (\<lambda>a. num_eq (a_productId a) (parseInt pid)) (alerts d);
             alertData = \<lparr>a_productId = parseInt pid,
                          a_acknowledged = True,
                          a_acknowledgedAt = JStr now,
                          a_acknowledgedBy = js_or acknowledgedBy (JStr ''System'')\<rparr>
         in (Success 200 (''Alert acknowledged successfully'', alertData),
             d\<lparr>alerts := (case existingAlertIndex of
                             Some i \<Rightarrow> (alerts d)[i := alertData]
                           | None \<Rightarrow> alerts d @ [alertData])\<rparr>)))"

text \<open>The \<open>DELETE\<close> branch, lines 144 to 162: unacknowledge an alert. \<open>pid\<close> is
  \<open>req.query.productId\<close>, a string, or absent.\<close>

definition alerts_DELETE :: "data \<Rightarrow> jsval \<Rightarrow> string response \<times> data" where
  "alerts_DELETE d pid =
     (if falsy pid then (Failure 400 (Message ''Product ID is required''), d)
      else (Success 200 ''Alert unacknowledged successfully'',
            d\<lparr>alerts := filter (\<lambda>a. \<not> num_eq (a_productId a) (parseInt pid)) (alerts d)\<rparr>))"

section \<open>Notions used in the properties\<close>

text \<open>The pair that identifies a stock entry: at most one entry per pair is the
  uniqueness rule of the data model.\<close>

definition stock_key :: "StockEntry \<Rightarrow> int \<times> int" where
  "stock_key s = (s_productId s, s_warehouseId s)"

text \<open>
  The scenario of the specification: product 1 with reorder point 100 has 40 units in
  warehouse 1 (\<open>A\<close>) and no entry in warehouse 2 (\<open>B\<close>); no transfer has been made and
  no alert acknowledged.
\<close>

definition example_data :: data where
  "example_data =
     \<lparr>products = [\<lparr>p_id = 1, p_sku = ''P-001'', p_name = ''Widget'', p_category = ''Tools'',
                    p_reorderPoint = 100\<rparr>],
      warehouses = [\<lparr>w_id = 1, w_name = ''A'', w_location = ''North''\<rparr>,
                    \<lparr>w_id = 2, w_name = ''B'', w_location = ''South''\<rparr>],
      stock = [\<lparr>s_id = 1, s_productId = 1, s_warehouseId = 1, s_quantity = Num 40\<rparr>],
      transfers = [],
      alerts = []\<rparr>"

text \<open>
  Five products with reorder point 100 whose totals are 50 (held as 30 and 20 in two
  warehouses), 49, 300, 301 and 10: the boundaries of the classification.
\<close>

definition boundary_data :: data where
  "boundary_data =
     \<lparr>products =
        [\<lparr>p_id = 1, p_sku = ''P-001'', p_name = ''Widget'', p_category = ''Tools'', p_reorderPoint = 100\<rparr>,
         \<lparr>p_id = 2, p_sku = ''P-002'', p_name = ''Gadget'', p_category = ''Tools'', p_reorderPoint = 100\<rparr>,
         \<lparr>p_id = 3, p_sku = ''P-003'', p_name = ''Bolt'', p_category = ''Parts'', p_reorderPoint = 100\<rparr>,
         \<lparr>p_id = 4, p_sku = ''P-004'', p_name = ''Nut'', p_category = ''Parts'', p_reorderPoint = 100\<rparr>,
         \<lparr>p_id = 5, p_sku = ''P-005'', p_name = ''Gear'', p_category = ''Parts'', p_reorderPoint = 100\<rparr>],
      warehouses = [\<lparr>w_id = 1, w_name = ''A'', w_location = ''North''\<rparr>,
                    \<lparr>w_id = 2, w_name = ''B'', w_location = ''South''\<rparr>],
      stock = [\<lparr>s_id = 1, s_productId = 1, s_warehouseId = 1, s_quantity = Num 30\<rparr>,
               \<lparr>s_id = 2, s_productId = 2, s_warehouseId = 1, s_quantity = Num 49\<rparr>,
               \<lparr>s_id = 3, s_productId = 3, s_warehouseId = 1, s_quantity = Num 300\<rparr>,
               \<lparr>s_id = 4, s_productId = 4, s_warehouseId = 2, s_quantity = Num 301\<rparr>,
               \<lparr>s_id = 5, s_productId = 1, s_warehouseId = 2, s_quantity = Num 20\<rparr>,
               \<lparr>s_id = 6, s_productId = 5, s_warehouseId = 2, s_quantity = Num 10\<rparr>],
      transfers = [],
      alerts = []\<rparr>"

section \<open>Auxiliary facts\<close>

lemmas js_eval = parseInt_string_def StrWhiteSpaceChar_def is_digit_def digit_value_def
  digits_value_def le_zero_def StringToNumber_def StrUnsignedDecimalLiteral_def ExponentPart_def
  round_to_double_def NonDecimalIntegerLiteral_def strict_eq_def js_or_def

lemmas handler_eval = transfers_POST_def find_stock_def update_stock_def next_id_def
  example_data_def

lemma num_eq_Num [simp]: "num_eq (Num a) k \<longleftrightarrow> k = Num a"
  by (cases k) auto

lemma num_eq_Num2 [simp]: "num_eq k (Num a) \<longleftrightarrow> k = Num a"
  by (cases k) auto

lemma findIndex_Some: "findIndex P xs = Some i \<Longrightarrow> i < length xs \<and> P (xs ! i)"
  by (induction xs arbitrary: i) (auto split: if_splits)

lemma findIndex_None: "findIndex P xs = None \<longleftrightarrow> (\<forall>x\<in>set xs. \<not> P x)"
  by (induction xs) auto

lemma find_stock_Some:
  "find_stock st (Num p) (Num w) = Some i \<Longrightarrow> i < length st \<and> stock_key (st ! i) = (p, w)"
  unfolding find_stock_def stock_key_def by (auto dest: findIndex_Some)

lemma find_stock_None:
  "find_stock st (Num p) (Num w) = None \<Longrightarrow> (p, w) \<notin> set (map stock_key st)"
  unfolding find_stock_def stock_key_def by (auto simp: findIndex_None)

lemma keys_quantity_update:
  "i < length st \<Longrightarrow> map stock_key (st[i := (st ! i)\<lparr>s_quantity := q\<rparr>]) = map stock_key st"
  by (simp add: map_update stock_key_def list_update_same_conv)

text \<open>The stock update changes quantities only, or appends one entry under a pair that
  no entry had.\<close>

lemma update_stock_keys:
  assumes "i < length st"
  shows "map stock_key (update_stock st i (Num p) (Num t) p t n) = map stock_key st
       \<or> (map stock_key (update_stock st i (Num p) (Num t) p t n) = map stock_key st @ [(p, t)]
          \<and> (p, t) \<notin> set (map stock_key st))"
proof -
  define st1 where "st1 = st[i := (st ! i)\<lparr>s_quantity := num_sub (s_quantity (st ! i)) n\<rparr>]"
  have k1: "map stock_key st1 = map stock_key st"
    unfolding st1_def using assms by (rule keys_quantity_update)
  show ?thesis
  proof (cases "find_stock st1 (Num p) (Num t)")
    case None
    then have "(p, t) \<notin> set (map stock_key st1)" by (rule find_stock_None)
    with None k1 show ?thesis
      by (simp add: update_stock_def Let_def st1_def [symmetric] stock_key_def)
  next
    case (Some j)
    then have "j < length st1" by (auto dest: find_stock_Some)
    then have "map stock_key (st1[j := (st1 ! j)\<lparr>s_quantity := num_add (s_quantity (st1 ! j)) n\<rparr>])
               = map stock_key st1"
      by (rule keys_quantity_update)
    with Some k1 show ?thesis
      by (simp add: update_stock_def Let_def st1_def [symmetric])
  qed
qed

text \<open>
  The paths through \<open>transfers_POST\<close>: either an early return, which answers with an error
  and writes nothing, or the one path that writes. On that path \<open>parseInt\<close> of the three
  ids gave the ids of the product and the warehouses found.
\<close>

lemma transfers_POST_cases:
  obtains (rejected) c e where "transfers_POST d now b = (Failure c e, d)"
  | (created) product fromWarehouse toWarehouse i where
      "\<not> falsy (productId b)" "\<not> falsy (fromWarehouseId b)" "\<not> falsy (toWarehouseId b)"
      "\<not> falsy (quantity b)" "\<not> strict_eq (fromWarehouseId b) (toWarehouseId b)"
      "\<not> le_zero (quantity b)"
      "product \<in> set (products d)" "parseInt (productId b) = Num (p_id product)"
      "fromWarehouse \<in> set (warehouses d)" "parseInt (fromWarehouseId b) = Num (w_id fromWarehouse)"
      "toWarehouse \<in> set (warehouses d)" "parseInt (toWarehouseId b) = Num (w_id toWarehouse)"
      "find_stock (stock d) (Num (p_id product)) (Num (w_id fromWarehouse)) = Some i"
      "\<not> num_lt (s_quantity (stock d ! i)) (parseInt (quantity b))"
      "transfers_POST d now b =
         (Success 201
            \<lparr>t_id = next_id (map t_id (transfers d)),
             t_productId = p_id product,
             t_fromWarehouseId = w_id fromWarehouse,
             t_toWarehouseId = w_id toWarehouse,
             t_quantity = parseInt (quantity b),
             t_notes = js_or (notes' b) (JStr []),
             t_date = now,
             t_status = ''completed'',
             productName = p_name product,
             productSku = p_sku product,
             fromWarehouseName = w_name fromWarehouse,
             toWarehouseName = w_name toWarehouse\<rparr>,
          d\<lparr>transfers := transfers d @
               [\<lparr>t_id = next_id (map t_id (transfers d)),
                 t_productId = p_id product,
                 t_fromWarehouseId = w_id fromWarehouse,
                 t_toWarehouseId = w_id toWarehouse,
                 t_quantity = parseInt (quantity b),
                 t_notes = js_or (notes' b) (JStr []),
                 t_date = now,
                 t_status = ''completed''\<rparr>],
             stock := update_stock (stock d) i (Num (p_id product)) (Num (w_id toWarehouse))
                        (p_id product) (w_id toWarehouse) (parseInt (quantity b))\<rparr>)"
proof (cases "falsy (productId b) \<or> falsy (fromWarehouseId b) \<or> falsy (toWarehouseId b)
         \<or> falsy (quantity b) \<or> strict_eq (fromWarehouseId b) (toWarehouseId b) \<or> le_zero (quantity b)")
  case True
  then have "\<exists>c e. transfers_POST d now b = (Failure c e, d)"
    by (auto simp: transfers_POST_def)
  then show ?thesis using rejected by blast
next
  case valid: False
  show ?thesis
  proof (cases "find (\<lambda>p. num_eq (Num (p_id p)) (parseInt (productId b))) (products d)")
    case None
    with valid have "transfers_POST d now b = (Failure 404 (Message ''Product not found''), d)"
      by (simp add: transfers_POST_def)
    then show ?thesis by (rule rejected)
  next
    case (Some product)
    then have p: "product \<in> set (products d)" "parseInt (productId b) = Num (p_id product)"
      by (auto simp: find_Some_iff)
    show ?thesis
    proof (cases "find (\<lambda>w. num_eq (Num (w_id w)) (parseInt (fromWarehouseId b))) (warehouses d)")
      case None
      with valid Some have "transfers_POST d now b = (Failure 404 (Message ''Warehouse not found''), d)"
        by (simp add: transfers_POST_def)
      then show ?thesis by (rule rejected)
    next
      case fw: (Some fromWarehouse)
      then have f: "fromWarehouse \<in> set (warehouses d)"
        "parseInt (fromWarehouseId b) = Num (w_id fromWarehouse)"
        by (auto simp: find_Some_iff)
      show ?thesis
      proof (cases "find (\<lambda>w. num_eq (Num (w_id w)) (parseInt (toWarehouseId b))) (warehouses d)")
        case None
        with valid Some fw
        have "transfers_POST d now b = (Failure 404 (Message ''Warehouse not found''), d)"
          by (simp add: transfers_POST_def)
        then show ?thesis by (rule rejected)
      next
        case tw: (Some toWarehouse)
        then have t: "toWarehouse \<in> set (warehouses d)"
          "parseInt (toWarehouseId b) = Num (w_id toWarehouse)"
          by (auto simp: find_Some_iff)
        show ?thesis
        proof (cases "find_stock (stock d) (Num (p_id product)) (Num (w_id fromWarehouse))")
          case None
          with valid Some fw tw p f t
          have "\<exists>c e. transfers_POST d now b = (Failure c e, d)"
            by (simp add: transfers_POST_def)
          then show ?thesis using rejected by blast
        next
          case src: (Some i)
          show ?thesis
          proof (cases "num_lt (s_quantity (stock d ! i)) (parseInt (quantity b))")
            case True
            with valid Some fw tw p f t src
            have "\<exists>c e. transfers_POST d now b = (Failure c e, d)"
              by (simp add: transfers_POST_def)
            then show ?thesis using rejected by blast
          next
            case False
            show ?thesis
              apply (rule created [of product fromWarehouse toWarehouse i])
              using valid Some fw tw p f t src False
              by (simp_all add: transfers_POST_def)
          qed
        qed
      qed
    qed
  qed
qed

section \<open>Transfers: what holds when the quantity parses to a number\<close>

text \<open>Addition on computed numbers is associative and commutative, and \<open>NaN\<close> absorbs.\<close>

lemma num_add_assoc: "num_add (num_add a b) c = num_add a (num_add b c)"
  by (cases a; cases b; cases c) simp_all

lemma num_add_commute: "num_add a b = num_add b a"
  by (cases a; cases b) simp_all

lemma num_sub_add: "num_sub a (Num n) = num_add a (Num (- n))"
  by (cases a) simp_all

lemma num_add_cancel: "num_add (num_add a (Num (- n))) (Num n) = a"
  by (cases a) simp_all

lemma foldl_num_add_shift:
  "foldl (\<lambda>sum s. num_add sum (s_quantity s)) (num_add a k) xs
   = num_add (foldl (\<lambda>sum s. num_add sum (s_quantity s)) a xs) k"
proof (induction xs arbitrary: a)
  case Nil
  show ?case by simp
next
  case (Cons x xs)
  have "num_add (num_add a k) (s_quantity x) = num_add (num_add a (s_quantity x)) k"
    by (simp add: num_add_assoc num_add_commute [of k])
  then show ?case using Cons [of "num_add a (s_quantity x)"] by simp
qed

lemma foldl_quantity_update:
  "i < length st \<Longrightarrow>
   foldl (\<lambda>sum s. num_add sum (s_quantity s)) a
     (filter (\<lambda>s. s_productId s = pid)
        (st[i := (st ! i)\<lparr>s_quantity := num_add (s_quantity (st ! i)) k\<rparr>]))
   = (if s_productId (st ! i) = pid
      then num_add (foldl (\<lambda>sum s. num_add sum (s_quantity s)) a
                      (filter (\<lambda>s. s_productId s = pid) st)) k
      else foldl (\<lambda>sum s. num_add sum (s_quantity s)) a (filter (\<lambda>s. s_productId s = pid) st))"
proof (induction st arbitrary: i a)
  case Nil
  then show ?case by simp
next
  case (Cons x xs)
  show ?case
  proof (cases i)
    case 0
    have "num_add a (num_add (s_quantity x) k) = num_add (num_add a (s_quantity x)) k"
      by (simp add: num_add_assoc)
    then show ?thesis using 0 by (simp add: foldl_num_add_shift)
  next
    case (Suc j)
    with Cons.prems have "j < length xs" by simp
    from Cons.IH [OF this] show ?thesis using Suc by simp
  qed
qed

lemma totalQuantity_update:
  "i < length st \<Longrightarrow>
   totalQuantity (st[i := (st ! i)\<lparr>s_quantity := num_add (s_quantity (st ! i)) k\<rparr>]) pid
   = (if s_productId (st ! i) = pid then num_add (totalQuantity st pid) k
      else totalQuantity st pid)"
  unfolding totalQuantity_def by (rule foldl_quantity_update)

lemma totalQuantity_append:
  "totalQuantity (st @ [s]) pid
   = (if s_productId s = pid then num_add (totalQuantity st pid) (s_quantity s)
      else totalQuantity st pid)"
  by (simp add: totalQuantity_def)

text \<open>The stock update of a transfer of \<open>n\<close> units leaves the total of every product as
  it was.\<close>

lemma update_stock_total:
  assumes "find_stock st (Num p) (Num f) = Some i"
  shows "totalQuantity (update_stock st i (Num p) (Num t) p t (Num n)) pid = totalQuantity st pid"
proof -
  from assms have i: "i < length st" and ki: "s_productId (st ! i) = p"
    by (auto dest: find_stock_Some simp: stock_key_def)
  define st1 where "st1 = st[i := (st ! i)\<lparr>s_quantity := num_sub (s_quantity (st ! i)) (Num n)\<rparr>]"
  have st1': "st1 = st[i := (st ! i)\<lparr>s_quantity := num_add (s_quantity (st ! i)) (Num (- n))\<rparr>]"
    by (simp add: st1_def num_sub_add)
  have T1: "totalQuantity st1 pid
            = (if p = pid then num_add (totalQuantity st pid) (Num (- n)) else totalQuantity st pid)"
    unfolding st1' using totalQuantity_update [OF i] ki by simp
  show ?thesis
  proof (cases "find_stock st1 (Num p) (Num t)")
    case None
    then have "update_stock st i (Num p) (Num t) p t (Num n)
               = st1 @ [\<lparr>s_id = next_id (map s_id st1), s_productId = p, s_warehouseId = t,
                          s_quantity = Num n\<rparr>]"
      by (simp add: update_stock_def Let_def st1_def [symmetric])
    then show ?thesis by (simp add: totalQuantity_append T1 num_add_cancel)
  next
    case (Some j)
    then have j: "j < length st1" and kj: "s_productId (st1 ! j) = p"
      by (auto dest: find_stock_Some simp: stock_key_def)
    from Some have "update_stock st i (Num p) (Num t) p t (Num n)
               = st1[j := (st1 ! j)\<lparr>s_quantity := num_add (s_quantity (st1 ! j)) (Num n)\<rparr>]"
      by (simp add: update_stock_def Let_def st1_def [symmetric])
    then show ?thesis using totalQuantity_update [OF j] kj by (simp add: T1 num_add_cancel)
  qed
qed

text \<open>
  A request answered with 201 whose quantity parses to a number leaves the total stock of
  every product unchanged, and when the two warehouse ids parse to different numbers,
  the source entry holds its former quantity minus the quantity transferred, which is
  not negative.
\<close>

lemma transfer_conserves_total:
  assumes "transfers_POST d now b = (Success c e, d')" and "parseInt (quantity b) = Num n"
  shows "totalQuantity (stock d') pid = totalQuantity (stock d) pid"
proof (cases rule: transfers_POST_cases [of d now b])
  case (rejected c e)
  with assms show ?thesis by simp
next
  case (created product fromWarehouse toWarehouse i)
  from created(15) assms have "stock d' = update_stock (stock d) i (Num (p_id product))
      (Num (w_id toWarehouse)) (p_id product) (w_id toWarehouse) (Num n)"
    by auto
  with update_stock_total [OF created(13)] show ?thesis by simp
qed

lemma transfer_decrements_source:
  assumes "transfers_POST d now b = (Success c e, d')"
    and "find_stock (stock d) (parseInt (productId b)) (parseInt (fromWarehouseId b)) = Some i"
    and "parseInt (fromWarehouseId b) \<noteq> parseInt (toWarehouseId b)"
    and "s_quantity (stock d ! i) = Num q" and "parseInt (quantity b) = Num n"
  shows "s_quantity (stock d' ! i) = Num (q - n) \<and> 0 \<le> q - n"
proof (cases rule: transfers_POST_cases [of d now b])
  case (rejected c e)
  with assms show ?thesis by simp
next
  case (created product fromWarehouse toWarehouse j)
  from created(13) assms(2) created(8,10) have ji: "j = i" by simp
  have le: "n \<le> q" using created(14) assms(4,5) ji by simp
  have ft: "w_id fromWarehouse \<noteq> w_id toWarehouse"
    using assms(3) created(10,12) by simp
  from created(13) ji have i: "i < length (stock d)"
    and ki: "stock_key (stock d ! i) = (p_id product, w_id fromWarehouse)"
    by (auto dest: find_stock_Some)
  define st1 where "st1 = (stock d)[i := (stock d ! i)\<lparr>s_quantity := Num (q - n)\<rparr>]"
  have s1: "st1 ! i = (stock d ! i)\<lparr>s_quantity := Num (q - n)\<rparr>"
    using i by (simp add: st1_def)
  have st: "stock d' = update_stock (stock d) i (Num (p_id product)) (Num (w_id toWarehouse))
      (p_id product) (w_id toWarehouse) (Num n)"
    using created(15) assms(1,5) ji by auto
  have "s_quantity (stock d' ! i) = Num (q - n)"
  proof (cases "find_stock st1 (Num (p_id product)) (Num (w_id toWarehouse))")
    case None
    then have "stock d' = st1 @ [\<lparr>s_id = next_id (map s_id st1), s_productId = p_id product,
        s_warehouseId = w_id toWarehouse, s_quantity = Num n\<rparr>]"
      using st assms(4) by (simp add: update_stock_def Let_def st1_def)
    then show ?thesis using i s1 by (simp add: nth_append st1_def)
  next
    case (Some k)
    then have k: "k < length st1" "stock_key (st1 ! k) = (p_id product, w_id toWarehouse)"
      by (auto dest: find_stock_Some)
    have "k \<noteq> i" using k(2) s1 ki ft by (auto simp: stock_key_def)
    moreover from Some have "stock d' = st1[k := (st1 ! k)\<lparr>s_quantity := num_add (s_quantity (st1 ! k)) (Num n)\<rparr>]"
      using st assms(4) by (simp add: update_stock_def Let_def st1_def)
    ultimately show ?thesis using s1 by simp
  qed
  with le show ?thesis by simp
qed

section \<open>Transfers: the claims\<close>

text \<open>
  C1 (conservation of the total stock of the transferred product over every request
  answered with 201) fails on the code. A quantity that is a non-empty string without
  digits, here \<open>"abc"\<close>, passes \<open>!quantity\<close> and \<open>quantity <= 0\<close> (\<open>NaN <= 0\<close> is false)
  and the stock check (\<open>40 < NaN\<close> is false); the request is answered with 201, and
  the source entry and the new destination entry both hold \<open>NaN\<close>. The total of
  product 1 was 40 and is \<open>NaN\<close> afterwards. When the quantity parses to a number the
  total is conserved (\<open>transfer_conserves_total\<close>).
\<close>

theorem transfer_of_NaN_breaks_conservation:
  "status_code (fst (transfers_POST example_data ''2026-01-01T00:00:00.000Z''
       \<lparr>productId = JNum 1, fromWarehouseId = JNum 1, toWarehouseId = JNum 2,
        quantity = JStr ''abc'', notes' = JUndefined\<rparr>)) = 201
   \<and> totalQuantity (stock example_data) 1 = Num 40
   \<and> totalQuantity (stock (snd (transfers_POST example_data ''2026-01-01T00:00:00.000Z''
       \<lparr>productId = JNum 1, fromWarehouseId = JNum 1, toWarehouseId = JNum 2,
        quantity = JStr ''abc'', notes' = JUndefined\<rparr>))) 1 = NaN"
  by (simp add: handler_eval js_eval totalQuantity_def)

text \<open>
  C2 (after every request answered with 201 the source entry holds its former quantity
  minus the transferred quantity) fails on the code. With \<open>fromWarehouseId = "1"\<close> and
  \<open>toWarehouseId = 1\<close> the test \<open>fromWarehouseId === toWarehouseId\<close> is false, both ids
  parse to warehouse 1, and the source entry is also the destination entry: it is
  decremented and incremented again. A transfer of 5 units is recorded and the source
  entry holds 40 as before. When the two ids parse to different warehouses and the
  quantity to a number, the source entry is decremented by it and stays \<open>\<ge> 0\<close>
  (\<open>transfer_decrements_source\<close>).
\<close>

theorem transfer_to_itself_leaves_source_unchanged:
  "status_code (fst (transfers_POST example_data ''2026-01-01T00:00:00.000Z''
       \<lparr>productId = JNum 1, fromWarehouseId = JStr ''1'', toWarehouseId = JNum 1,
        quantity = JNum 5, notes' = JUndefined\<rparr>)) = 201
   \<and> map t_quantity (transfers (snd (transfers_POST example_data ''2026-01-01T00:00:00.000Z''
       \<lparr>productId = JNum 1, fromWarehouseId = JStr ''1'', toWarehouseId = JNum 1,
        quantity = JNum 5, notes' = JUndefined\<rparr>))) = [Num 5]
   \<and> stock example_data
       = [\<lparr>s_id = 1, s_productId = 1, s_warehouseId = 1, s_quantity = Num 40\<rparr>]
   \<and> stock (snd (transfers_POST example_data ''2026-01-01T00:00:00.000Z''
       \<lparr>productId = JNum 1, fromWarehouseId = JStr ''1'', toWarehouseId = JNum 1,
        quantity = JNum 5, notes' = JUndefined\<rparr>))
       = [\<lparr>s_id = 1, s_productId = 1, s_warehouseId = 1, s_quantity = Num 40\<rparr>]"
  by (simp add: handler_eval js_eval)

text \<open>
  C3: if the stock collection holds at most one entry per pair (productId, warehouseId)
  before a \<open>POST\<close> transfers request, it does so afterwards, whatever the request and
  its outcome. The pairs of the entries are the same as before, in the same order, or
  one entry has been appended whose pair no entry had: an existing destination entry is
  updated, and an entry is created only when there was none.
\<close>

theorem transfer_keeps_pairs_unique:
  assumes "distinct (map stock_key (stock d))"
  shows "distinct (map stock_key (stock (snd (transfers_POST d now b))))
       \<and> (map stock_key (stock (snd (transfers_POST d now b))) = map stock_key (stock d)
          \<or> (\<exists>k. map stock_key (stock (snd (transfers_POST d now b))) = map stock_key (stock d) @ [k]
                  \<and> k \<notin> set (map stock_key (stock d))))"
proof (cases rule: transfers_POST_cases [of d now b])
  case (rejected c e)
  with assms show ?thesis by simp
next
  case (created product fromWarehouse toWarehouse i)
  from created(13) have "i < length (stock d)" by (auto dest: find_stock_Some)
  from update_stock_keys [OF this, of "p_id product" "w_id toWarehouse" "parseInt (quantity b)"]
  show ?thesis using assms created(15) by auto
qed

theorem transfer_keeps_pairs_unique_witness:
  "distinct (map stock_key (stock example_data))
   \<and> map stock_key (stock (snd (transfers_POST example_data ''2026-01-01T00:00:00.000Z''
       \<lparr>productId = JNum 1, fromWarehouseId = JNum 1, toWarehouseId = JNum 2,
        quantity = JNum 5, notes' = JUndefined\<rparr>))) = [(1, 1), (1, 2)]
   \<and> distinct (map stock_key (stock (snd (transfers_POST example_data ''2026-01-01T00:00:00.000Z''
       \<lparr>productId = JNum 1, fromWarehouseId = JNum 1, toWarehouseId = JNum 2,
        quantity = JNum 5, notes' = JUndefined\<rparr>))))"
proof -
  have h: "distinct (map stock_key (stock example_data))"
    by (simp add: example_data_def stock_key_def)
  have e: "map stock_key (stock (snd (transfers_POST example_data ''2026-01-01T00:00:00.000Z''
       \<lparr>productId = JNum 1, fromWarehouseId = JNum 1, toWarehouseId = JNum 2,
        quantity = JNum 5, notes' = JUndefined\<rparr>))) = [(1, 1), (1, 2)]"
    by (simp add: handler_eval js_eval stock_key_def)
  from transfer_keeps_pairs_unique [OF h] h e show ?thesis by blast
qed

text \<open>
  C5, as amended. The claim (every request whose quantity is present but not a positive
  integer fails with the invalid-quantity error and creates no transfer) fails on the code;
  what holds is this. When the four required fields are truthy and the two warehouse ids are
  not strictly equal, a quantity that converts to a number \<open>\<le> 0\<close> (a negative number, or
  a string that reads as one) is answered with 400 \<open>Quantity must be greater than 0\<close> and
  nothing is written. A falsy quantity, the number 0 among them, is answered with
  400 \<open>Missing required fields\<close>, whatever the other fields are, and nothing is written.
\<close>

theorem nonpositive_quantity_rejected:
  "(\<not> falsy (productId b) \<and> \<not> falsy (fromWarehouseId b) \<and> \<not> falsy (toWarehouseId b)
      \<and> \<not> falsy (quantity b) \<and> \<not> strict_eq (fromWarehouseId b) (toWarehouseId b)
      \<and> le_zero (quantity b)
    \<longrightarrow> transfers_POST d now b = (Failure 400 (Message ''Quantity must be greater than 0''), d))
   \<and> (falsy (quantity b)
    \<longrightarrow> transfers_POST d now b = (Failure 400 (Message ''Missing required fields''), d))"
  by (simp add: transfers_POST_def)

theorem nonpositive_quantity_rejected_witness:
  "transfers_POST example_data ''2026-01-01T00:00:00.000Z''
     \<lparr>productId = JNum 1, fromWarehouseId = JNum 1, toWarehouseId = JNum 2,
      quantity = JNum (- 3), notes' = JUndefined\<rparr>
     = (Failure 400 (Message ''Quantity must be greater than 0''), example_data)
   \<and> transfers_POST example_data ''2026-01-01T00:00:00.000Z''
     \<lparr>productId = JNum 1, fromWarehouseId = JNum 1, toWarehouseId = JNum 2,
      quantity = JNum 0, notes' = JUndefined\<rparr>
     = (Failure 400 (Message ''Missing required fields''), example_data)"
  using nonpositive_quantity_rejected [of "\<lparr>productId = JNum 1, fromWarehouseId = JNum 1,
      toWarehouseId = JNum 2, quantity = JNum (- 3), notes' = JUndefined\<rparr>"
      example_data "''2026-01-01T00:00:00.000Z''"]
    nonpositive_quantity_rejected [of "\<lparr>productId = JNum 1, fromWarehouseId = JNum 1,
      toWarehouseId = JNum 2, quantity = JNum 0, notes' = JUndefined\<rparr>"
      example_data "''2026-01-01T00:00:00.000Z''"]
  by (simp add: strict_eq_def le_zero_def)

text \<open>
  The claim as stated fails: the quantity 2.5 is not rejected. \<open>parseInt\<close> reads it as 2,
  and a transfer of 2 units is made and answered with 201. The quantity 0 is rejected, but
  as a missing field.
\<close>

theorem fractional_quantity_accepted:
  "transfers_POST example_data ''2026-01-01T00:00:00.000Z''
     \<lparr>productId = JNum 1, fromWarehouseId = JNum 1, toWarehouseId = JNum 2,
      quantity = JNum (5 / 2), notes' = JUndefined\<rparr>
   = (Success 201
        \<lparr>t_id = 1, t_productId = 1, t_fromWarehouseId = 1, t_toWarehouseId = 2,
         t_quantity = Num 2, t_notes = JStr [], t_date = ''2026-01-01T00:00:00.000Z'',
         t_status = ''completed'', productName = ''Widget'', productSku = ''P-001'',
         fromWarehouseName = ''A'', toWarehouseName = ''B''\<rparr>,
      example_data\<lparr>transfers :=
        [\<lparr>t_id = 1, t_productId = 1, t_fromWarehouseId = 1, t_toWarehouseId = 2,
          t_quantity = Num 2, t_notes = JStr [], t_date = ''2026-01-01T00:00:00.000Z'',
          t_status = ''completed''\<rparr>],
        stock := [\<lparr>s_id = 1, s_productId = 1, s_warehouseId = 1, s_quantity = Num 38\<rparr>,
                  \<lparr>s_id = 2, s_productId = 1, s_warehouseId = 2, s_quantity = Num 2\<rparr>]\<rparr>)
   \<and> transfers_POST example_data ''2026-01-01T00:00:00.000Z''
     \<lparr>productId = JNum 1, fromWarehouseId = JNum 1, toWarehouseId = JNum 2,
      quantity = JNum 0, notes' = JUndefined\<rparr>
     = (Failure 400 (Message ''Missing required fields''), example_data)"
  by (simp add: handler_eval js_eval floor_eq_iff)

text \<open>
  C6, as amended. The claim (equal warehouse ids always give the same-warehouse error,
  whatever the other fields, a missing or zero quantity included) fails on the code: the
  test for missing fields comes first. When the four required fields are truthy and
  \<open>fromWarehouseId === toWarehouseId\<close>, the request is answered with 400
  \<open>Source and destination warehouses must be different\<close>, whatever the product and the
  quantity are, and nothing is written. When one of the four is falsy the answer is
  400 \<open>Missing required fields\<close>.
\<close>

theorem same_warehouse_rejected:
  "(\<not> falsy (productId b) \<and> \<not> falsy (fromWarehouseId b) \<and> \<not> falsy (toWarehouseId b)
      \<and> \<not> falsy (quantity b) \<and> strict_eq (fromWarehouseId b) (toWarehouseId b)
    \<longrightarrow> transfers_POST d now b
          = (Failure 400 (Message ''Source and destination warehouses must be different''), d))
   \<and> (falsy (productId b) \<or> falsy (fromWarehouseId b) \<or> falsy (toWarehouseId b)
      \<or> falsy (quantity b)
    \<longrightarrow> transfers_POST d now b = (Failure 400 (Message ''Missing required fields''), d))"
  by (simp add: transfers_POST_def)

theorem same_warehouse_rejected_witness:
  "transfers_POST example_data ''2026-01-01T00:00:00.000Z''
     \<lparr>productId = JNum 7, fromWarehouseId = JStr ''2'', toWarehouseId = JStr ''2'',
      quantity = JNum (- 3), notes' = JUndefined\<rparr>
     = (Failure 400 (Message ''Source and destination warehouses must be different''), example_data)
   \<and> transfers_POST example_data ''2026-01-01T00:00:00.000Z''
     \<lparr>productId = JNum 1, fromWarehouseId = JNum 1, toWarehouseId = JNum 1,
      quantity = JUndefined, notes' = JUndefined\<rparr>
     = (Failure 400 (Message ''Missing required fields''), example_data)"
  using same_warehouse_rejected [of "\<lparr>productId = JNum 7, fromWarehouseId = JStr ''2'',
      toWarehouseId = JStr ''2'', quantity = JNum (- 3), notes' = JUndefined\<rparr>"
      example_data "''2026-01-01T00:00:00.000Z''"]
    same_warehouse_rejected [of "\<lparr>productId = JNum 1, fromWarehouseId = JNum 1,
      toWarehouseId = JNum 1, quantity = JUndefined, notes' = JUndefined\<rparr>"
      example_data "''2026-01-01T00:00:00.000Z''"]
  by (simp add: strict_eq_def)

text \<open>The claim as stated fails: with equal warehouse ids and the quantity 0 the answer is
  the missing-fields error.\<close>

theorem same_warehouse_with_zero_quantity:
  "transfers_POST example_data ''2026-01-01T00:00:00.000Z''
     \<lparr>productId = JNum 1, fromWarehouseId = JNum 1, toWarehouseId = JNum 1,
      quantity = JNum 0, notes' = JUndefined\<rparr>
     = (Failure 400 (Message ''Missing required fields''), example_data)
   \<and> Message ''Missing required fields''
       \<noteq> Message ''Source and destination warehouses must be different''"
  by (simp add: handler_eval js_eval)

text \<open>
  C7 (every transfer recorded by a request answered with 201 has different source and
  destination warehouses, also when one id is sent as a numeric string and the other as a
  number) fails on the code. \<open>"1" === 1\<close> is false, so the same-warehouse test lets the
  request through; \<open>parseInt\<close> maps both ids to warehouse 1, and the transfer recorded
  goes from warehouse 1 to warehouse 1.
\<close>

theorem same_warehouse_under_two_encodings_accepted:
  "transfers_POST example_data ''2026-01-01T00:00:00.000Z''
     \<lparr>productId = JNum 1, fromWarehouseId = JStr ''1'', toWarehouseId = JNum 1,
      quantity = JNum 5, notes' = JUndefined\<rparr>
   = (Success 201
        \<lparr>t_id = 1, t_productId = 1, t_fromWarehouseId = 1, t_toWarehouseId = 1,
         t_quantity = Num 5, t_notes = JStr [], t_date = ''2026-01-01T00:00:00.000Z'',
         t_status = ''completed'', productName = ''Widget'', productSku = ''P-001'',
         fromWarehouseName = ''A'', toWarehouseName = ''A''\<rparr>,
      example_data\<lparr>transfers :=
        [\<lparr>t_id = 1, t_productId = 1, t_fromWarehouseId = 1, t_toWarehouseId = 1,
          t_quantity = Num 5, t_notes = JStr [], t_date = ''2026-01-01T00:00:00.000Z'',
          t_status = ''completed''\<rparr>]\<rparr>)"
  by (simp add: handler_eval js_eval)

section \<open>Alerts: auxiliary facts\<close>

lemmas alerts_eval = alerts_GET_def productAlert_def totalQuantity_def classify_def or_unknown_def
  js_or_def

lemma set_alerts_GET: "set (alerts_GET d) = productAlert d ` set (products d)"
  by (simp add: alerts_GET_def)

lemma productAlert_fields:
  "al_productId (productAlert d p) = p_id p"
  "al_currentStock (productAlert d p) = totalQuantity (stock d) (p_id p)"
  "al_reorderPoint (productAlert d p) = p_reorderPoint p"
  "al_status (productAlert d p) = fst (classify (totalQuantity (stock d) (p_id p)) (p_reorderPoint p))"
  "al_severity (productAlert d p)
     = fst (snd (classify (totalQuantity (stock d) (p_id p)) (p_reorderPoint p)))"
  "al_recommendedAction (productAlert d p)
     = fst (snd (snd (classify (totalQuantity (stock d) (p_id p)) (p_reorderPoint p))))"
  "al_reorderQuantity (productAlert d p)
     = snd (snd (snd (classify (totalQuantity (stock d) (p_id p)) (p_reorderPoint p))))"
  by (simp_all add: productAlert_def Let_def)

lemma productAlert_acknowledgment:
  "al_acknowledged (productAlert d p)
     = (case find (\<lambda>a. num_eq (a_productId a) (Num (p_id p))) (alerts d) of
          None \<Rightarrow> False | Some a \<Rightarrow> a_acknowledged a)"
  "al_acknowledgedAt (productAlert d p)
     = (case find (\<lambda>a. num_eq (a_productId a) (Num (p_id p))) (alerts d) of
          None \<Rightarrow> JNull | Some a \<Rightarrow> js_or (a_acknowledgedAt a) JNull)"
  "al_acknowledgedBy (productAlert d p)
     = (case find (\<lambda>a. num_eq (a_productId a) (Num (p_id p))) (alerts d) of
          None \<Rightarrow> JNull | Some a \<Rightarrow> js_or (a_acknowledgedBy a) JNull)"
  by (simp_all add: productAlert_def Let_def)





text \<open>After an upsert the record is the first one found; after the filter none is.\<close>

lemma find_upsert:
  assumes "P x"
  shows "find P (case findIndex P xs of Some i \<Rightarrow> xs[i := x] | None \<Rightarrow> xs @ [x]) = Some x"
proof (induction xs)
  case Nil
  show ?case using assms by simp
next
  case (Cons y ys)
  show ?case
  proof (cases "P y")
    case True
    then show ?thesis using assms by simp
  next
    case False
    then show ?thesis using Cons by (cases "findIndex P ys") simp_all
  qed
qed

lemma find_filter_out: "find P (filter (\<lambda>a. \<not> P a) xs) = None"
  by (simp add: find_None_iff)

lemma alert_record_after_POST:
  assumes "\<not> falsy pid" and "parseInt pid = Num k"
  shows "find (\<lambda>a. num_eq (a_productId a) (Num k)) (alerts (snd (alerts_POST d now pid author)))
         = Some \<lparr>a_productId = Num k, a_acknowledged = True, a_acknowledgedAt = JStr now,
                 a_acknowledgedBy = js_or author (JStr ''System'')\<rparr>"
  using assms
    find_upsert [of "\<lambda>a. num_eq (a_productId a) (Num k)"
      "\<lparr>a_productId = Num k, a_acknowledged = True, a_acknowledgedAt = JStr now,
         a_acknowledgedBy = js_or author (JStr ''System'')\<rparr>" "alerts d"]
  by (simp add: alerts_POST_def Let_def)

lemma alert_record_after_DELETE:
  assumes "\<not> falsy pid" and "parseInt pid = Num k"
  shows "find (\<lambda>a. num_eq (a_productId a) (Num k)) (alerts (snd (alerts_DELETE d pid))) = None"
  using assms find_filter_out [of "\<lambda>a. num_eq (a_productId a) (Num k)" "alerts d"]
  by (simp add: alerts_DELETE_def)

lemma handlers_keep_products:
  "products (snd (alerts_POST d now pid author)) = products d"
  "products (snd (alerts_DELETE d pid)) = products d"
  by (simp_all add: alerts_POST_def alerts_DELETE_def Let_def)

lemma status_200_POST: "status_code (fst (alerts_POST d now pid author)) = 200 \<longleftrightarrow> \<not> falsy pid"
  by (simp add: alerts_POST_def Let_def)

lemma status_200_DELETE: "status_code (fst (alerts_DELETE d pid)) = 200 \<longleftrightarrow> \<not> falsy pid"
  by (simp add: alerts_DELETE_def)

section \<open>Alerts: the claims\<close>



text \<open>
  C8: when \<open>POST\<close> (acknowledge) with a product id that parses to the id of a product
  is answered with 200, every alert of that product in the next \<open>GET\<close> is acknowledged
  and carries the timestamp and the author that were stored (the author sent, or
  \<open>System\<close> when none was); there is such an alert. After a \<open>DELETE\<close> (unacknowledge)
  for the same product, answered with 200, every alert of that product in the next
  \<open>GET\<close> is unacknowledged with \<open>null\<close> timestamp and author.
\<close>

theorem acknowledge_then_unacknowledge:
  assumes "p \<in> set (products d)"
    and "status_code (fst (alerts_POST d now pid author)) = 200"
    and "parseInt pid = Num (p_id p)"
    and "now \<noteq> []"
    and "status_code (fst (alerts_DELETE (snd (alerts_POST d now pid author)) pid')) = 200"
    and "parseInt pid' = Num (p_id p)"
  shows "(\<exists>a \<in> set (alerts_GET (snd (alerts_POST d now pid author))). al_productId a = p_id p)
    \<and> (\<forall>a \<in> set (alerts_GET (snd (alerts_POST d now pid author))).
          al_productId a = p_id p \<longrightarrow>
            al_acknowledged a \<and> al_acknowledgedAt a = JStr now
            \<and> al_acknowledgedBy a = js_or author (JStr ''System''))
    \<and> (\<exists>a \<in> set (alerts_GET (snd (alerts_DELETE (snd (alerts_POST d now pid author)) pid'))).
          al_productId a = p_id p)
    \<and> (\<forall>a \<in> set (alerts_GET (snd (alerts_DELETE (snd (alerts_POST d now pid author)) pid'))).
          al_productId a = p_id p \<longrightarrow>
            \<not> al_acknowledged a \<and> al_acknowledgedAt a = JNull \<and> al_acknowledgedBy a = JNull)"
proof -
  define d1 where "d1 = snd (alerts_POST d now pid author)"
  define d2 where "d2 = snd (alerts_DELETE d1 pid')"
  have t1: "\<not> falsy pid" using assms(2) by (simp add: status_200_POST)
  have t2: "\<not> falsy pid'" using assms(5) by (simp add: status_200_DELETE)
  have p1: "products d1 = products d" and p2: "products d2 = products d"
    by (simp_all add: d1_def d2_def handlers_keep_products)
  have r1: "find (\<lambda>a. num_eq (a_productId a) (Num (p_id p))) (alerts d1)
            = Some \<lparr>a_productId = Num (p_id p), a_acknowledged = True, a_acknowledgedAt = JStr now,
                    a_acknowledgedBy = js_or author (JStr ''System'')\<rparr>"
    unfolding d1_def using t1 assms(3) by (rule alert_record_after_POST)
  have r2: "find (\<lambda>a. num_eq (a_productId a) (Num (p_id p))) (alerts d2) = None"
    unfolding d2_def using t2 assms(6) by (rule alert_record_after_DELETE)
  have truthy: "\<not> falsy (js_or author (JStr ''System''))"
    by (simp add: js_or_def)
  have e1: "\<exists>a \<in> set (alerts_GET d1). al_productId a = p_id p"
    using assms(1) by (auto simp: set_alerts_GET p1 productAlert_fields)
  have e2: "\<exists>a \<in> set (alerts_GET d2). al_productId a = p_id p"
    using assms(1) by (auto simp: set_alerts_GET p2 productAlert_fields)
  have a1: "al_acknowledged a \<and> al_acknowledgedAt a = JStr now
            \<and> al_acknowledgedBy a = js_or author (JStr ''System'')"
    if "a \<in> set (alerts_GET d1)" "al_productId a = p_id p" for a
  proof -
    from that obtain q where q: "a = productAlert d1 q" "p_id q = p_id p"
      by (auto simp: set_alerts_GET productAlert_fields)
    show ?thesis
      using r1 truthy assms(4) by (simp add: q productAlert_acknowledgment js_or_def)
  qed
  have a2: "\<not> al_acknowledged a \<and> al_acknowledgedAt a = JNull \<and> al_acknowledgedBy a = JNull"
    if "a \<in> set (alerts_GET d2)" "al_productId a = p_id p" for a
  proof -
    from that obtain q where q: "a = productAlert d2 q" "p_id q = p_id p"
      by (auto simp: set_alerts_GET productAlert_fields)
    show ?thesis
      using r2 by (simp add: q productAlert_acknowledgment)
  qed
  show ?thesis
    using e1 e2 a1 a2 unfolding d1_def d2_def by blast
qed

theorem acknowledge_then_unacknowledge_witness:
  "map al_acknowledged (alerts_GET (snd (alerts_POST example_data ''2026-01-01T00:00:00.000Z''
       (JNum 1) (JStr ''Manager'')))) = [True]
   \<and> map al_acknowledgedAt (alerts_GET (snd (alerts_POST example_data
       ''2026-01-01T00:00:00.000Z'' (JNum 1) (JStr ''Manager''))))
       = [JStr ''2026-01-01T00:00:00.000Z'']
   \<and> map al_acknowledgedBy (alerts_GET (snd (alerts_POST example_data
       ''2026-01-01T00:00:00.000Z'' (JNum 1) (JStr ''Manager'')))) = [JStr ''Manager'']
   \<and> map al_acknowledged (alerts_GET (snd (alerts_DELETE (snd (alerts_POST example_data
       ''2026-01-01T00:00:00.000Z'' (JNum 1) (JStr ''Manager''))) (JStr ''1'')))) = [False]
   \<and> map al_acknowledgedAt (alerts_GET (snd (alerts_DELETE (snd (alerts_POST example_data
       ''2026-01-01T00:00:00.000Z'' (JNum 1) (JStr ''Manager''))) (JStr ''1'')))) = [JNull]
   \<and> map al_acknowledgedBy (alerts_GET (snd (alerts_DELETE (snd (alerts_POST example_data
       ''2026-01-01T00:00:00.000Z'' (JNum 1) (JStr ''Manager''))) (JStr ''1'')))) = [JNull]"
proof -
  define p where "p = \<lparr>p_id = 1, p_sku = ''P-001'', p_name = ''Widget'', p_category = ''Tools'',
    p_reorderPoint = 100\<rparr>"
  define d1 where "d1 = snd (alerts_POST example_data ''2026-01-01T00:00:00.000Z''
    (JNum 1) (JStr ''Manager''))"
  define d2 where "d2 = snd (alerts_DELETE d1 (JStr ''1''))"
  have h1: "p \<in> set (products example_data)"
    by (simp add: p_def example_data_def)
  have h2: "status_code (fst (alerts_POST example_data ''2026-01-01T00:00:00.000Z''
      (JNum 1) (JStr ''Manager''))) = 200"
    by (simp add: alerts_POST_def Let_def)
  have h3: "parseInt (JNum 1) = Num (p_id p)"
    by (simp add: p_def)
  have h4: "''2026-01-01T00:00:00.000Z'' \<noteq> []"
    by simp
  have h5: "status_code (fst (alerts_DELETE (snd (alerts_POST example_data
      ''2026-01-01T00:00:00.000Z'' (JNum 1) (JStr ''Manager''))) (JStr ''1''))) = 200"
    by (simp add: alerts_DELETE_def)
  have h6: "parseInt (JStr ''1'') = Num (p_id p)"
    by (simp add: p_def js_eval)
  note T = acknowledge_then_unacknowledge [OF h1 h2 h3 h4 h5 h6, folded d1_def, folded d2_def]
  have "map al_productId (alerts_GET d1) = [1]"
    by (simp add: d1_def alerts_POST_def Let_def alerts_GET_def productAlert_def example_data_def)
  then obtain a1 where a1: "alerts_GET d1 = [a1]" "al_productId a1 = p_id p"
    by (auto simp: p_def)
  have "map al_productId (alerts_GET d2) = [1]"
    by (simp add: d2_def d1_def alerts_DELETE_def alerts_POST_def Let_def alerts_GET_def
        productAlert_def example_data_def)
  then obtain a2 where a2: "alerts_GET d2 = [a2]" "al_productId a2 = p_id p"
    by (auto simp: p_def)
  from T a1 a2 show ?thesis
    unfolding d1_def [symmetric] d2_def [symmetric] by (simp add: js_or_def)
qed

text \<open>
  C9, as amended. The claim gives \<open>Immediate reorder required\<close> for critical and
  \<open>No action needed\<close> for adequate; the code writes other literals for these two tiers.
  In every alert returned the recommended action is the literal of the alert's status:
  \<open>URGENT: Immediate reorder required\<close> for critical, \<open>Reorder recommended\<close> for low,
  \<open>Consider redistribution or promotion\<close> for overstocked and \<open>Stock levels healthy\<close>
  for adequate.
\<close>

theorem recommended_action_literals:
  "\<forall>a \<in> set (alerts_GET d).
     al_recommendedAction a =
       (case al_status a of
          critical \<Rightarrow> ''URGENT: Immediate reorder required''
        | low \<Rightarrow> ''Reorder recommended''
        | overstocked \<Rightarrow> ''Consider redistribution or promotion''
        | adequate \<Rightarrow> ''Stock levels healthy'')"
  by (auto simp: set_alerts_GET productAlert_fields classify_def Let_def)

theorem recommended_action_literals_witness:
  "map al_status (alerts_GET boundary_data) = [critical, critical, low, overstocked, adequate]
   \<and> map al_recommendedAction (alerts_GET boundary_data)
       = [''URGENT: Immediate reorder required'', ''URGENT: Immediate reorder required'',
          ''Reorder recommended'', ''Consider redistribution or promotion'',
          ''Stock levels healthy'']"
proof -
  have e: "map al_status (alerts_GET boundary_data)
           = [critical, critical, low, overstocked, adequate]"
    by (simp add: alerts_eval boundary_data_def)
  have "map al_recommendedAction (alerts_GET boundary_data)
        = map (\<lambda>s. case s of
                 critical \<Rightarrow> ''URGENT: Immediate reorder required''
               | low \<Rightarrow> ''Reorder recommended''
               | overstocked \<Rightarrow> ''Consider redistribution or promotion''
               | adequate \<Rightarrow> ''Stock levels healthy'') (map al_status (alerts_GET boundary_data))"
    using recommended_action_literals [of boundary_data] by (simp add: map_eq_conv)
  with e show ?thesis by simp
qed

text \<open>The claim as stated fails for a critical product (total 40 against reorder point
  100) and for an adequate one (total 100).\<close>

theorem recommended_action_of_critical_and_adequate:
  "map al_status (alerts_GET example_data) = [critical]
   \<and> map al_recommendedAction (alerts_GET example_data) = [''URGENT: Immediate reorder required'']
   \<and> map al_status (alerts_GET (example_data\<lparr>stock :=
        [\<lparr>s_id = 1, s_productId = 1, s_warehouseId = 1, s_quantity = Num 100\<rparr>]\<rparr>)) = [adequate]
   \<and> map al_recommendedAction (alerts_GET (example_data\<lparr>stock :=
        [\<lparr>s_id = 1, s_productId = 1, s_warehouseId = 1, s_quantity = Num 100\<rparr>]\<rparr>))
       = [''Stock levels healthy'']"
  by (simp add: alerts_eval example_data_def)

text \<open>
  C10: the alerts returned are sorted ascending by severity rank (critical 0, high 1,
  medium 2, low 3), and the alerts of any one rank appear in the order of their
  products in the product collection; there is one alert per product.
\<close>

theorem alerts_sorted_by_severity:
  "sorted (map (\<lambda>a. severityOrder (al_severity a)) (alerts_GET d))
   \<and> (\<forall>k. filter (\<lambda>a. severityOrder (al_severity a) = k) (alerts_GET d)
          = filter (\<lambda>a. severityOrder (al_severity a) = k) (map (productAlert d) (products d)))
   \<and> length (alerts_GET d) = length (products d)"
  by (simp add: alerts_GET_def sort_key_stable)

theorem alerts_sorted_by_severity_witness:
  "map al_productId (map (productAlert boundary_data) (products boundary_data)) = [1, 2, 3, 4, 5]
   \<and> map al_productId (alerts_GET boundary_data) = [2, 5, 1, 4, 3]
   \<and> map al_severity (alerts_GET boundary_data)
       = [sev_critical, sev_critical, sev_high, sev_medium, sev_low]
   \<and> sorted (map (\<lambda>a. severityOrder (al_severity a)) (alerts_GET boundary_data))"
  using alerts_sorted_by_severity [of boundary_data]
  by (simp add: alerts_eval boundary_data_def)

end
